theory Spec2Isabelle
  imports Main
begin

section \<open>The lifecycle coordinator of app/app.go\<close>

text \<open>
  The package runs one main loop, waits for it or for SIGINT/SIGTERM, and then calls
  the registered shutdown handlers in order. The embedding makes every effect a value:
  \<^item> a call that may return, panic or never return has an \<open>outcome\<close>;
  \<^item> what a thread does (logger calls, \<open>time.Sleep\<close>, handler calls, the signal
    registration) is a list of events, in program order;
  \<^item> a Go pointer or func value that the code compares with nil is an \<open>option\<close>;
  \<^item> the package variable \<open>defaultApp\<close> is an explicit parameter;
  \<^item> the two things the code leaves to its environment, signal delivery and the
    choice of \<open>select\<close> among ready cases, are an explicit parameter \<open>env\<close>.
\<close>

subsection \<open>Data\<close>

text \<open>\<open>time.Duration\<close> is an int64 count of nanoseconds; the code only stores and passes it.\<close>

type_synonym Duration = int

definition Second :: Duration where
  "Second = 1000000000"

definition DefaultGracePeriod :: Duration where
  "DefaultGracePeriod = 3 * Second"

definition DefaultShutdownTimeout :: Duration where
  "DefaultShutdownTimeout = 5 * Second"

text \<open>A Go \<open>error\<close> is nil (\<open>None\<close>) or carries the text its \<open>Error()\<close> method returns.\<close>

type_synonym error = "string option"

text \<open>How a call ends: it returns a value, panics with a value, or never returns.\<close>

datatype 'a outcome = Returns 'a | Panics string | NeverReturns

definition nil_dereference :: string where
  "nil_dereference = ''runtime error: invalid memory address or nil pointer dereference''"

definition not_initialized :: string where
  "not_initialized = ''default app not initialized''"

text \<open>
  \<open>context.Context\<close>: the root context and the contexts derived from one. The code
  creates \<open>context.Background()\<close> and hands on whatever it is given.
\<close>

datatype Context =
    Background
  | WithCancel Context
  | WithTimeout Context Duration

text \<open>
  \<open>type ShutdownHandler func(context.Context) error\<close>: the behaviour of the callable
  on the context it receives. A nil func value is the handler that panics with a nil
  dereference as soon as it is called, since \<open>Shutdown\<close> calls a handler without
  testing it.

  \<open>type MainLoopFunc func() error\<close>: it takes no argument and is called at most once, so
  it is what that call does. \<open>RunAndWait\<close> tests it against nil, so the parameter is an
  \<open>option\<close>.
\<close>

type_synonym ShutdownHandler = "Context \<Rightarrow> error outcome"

type_synonym MainLoopFunc = "error outcome"

text \<open>\<open>*slog.Logger\<close>: the logger that \<open>NewDefaultApp\<close> builds.\<close>

datatype logger = JSONStdoutLogger

datatype level = LevelInfo | LevelError

text \<open>
  Events, in the order a thread produces them:
  \<^item> \<open>Logged lv msg attrs\<close>: \<open>a.logger.Info\<close> or \<open>a.logger.Error\<close> with its
    \<open>slog.String\<close> attributes;
  \<^item> \<open>Slept d\<close>: \<open>time.Sleep(d)\<close> ran to its end;
  \<^item> \<open>Invoked h ctx\<close>: the call \<open>shutdownHandler(ctx)\<close>;
  \<^item> \<open>CallShutdown ctx\<close>: \<open>RunAndWait\<close> reaches one of its two calls \<open>a.Shutdown(ctx)\<close>;
  \<^item> \<open>NotifyContext\<close>: \<open>signal.NotifyContext\<close> subscribes to SIGINT and SIGTERM;
  \<^item> \<open>CancelNotify\<close>: the deferred \<open>cancel()\<close> releases the subscription.
\<close>

datatype event =
    Logged level string "(string \<times> string) list"
  | Slept Duration
  | Invoked ShutdownHandler Context
  | CallShutdown Context
  | NotifyContext
  | CancelNotify

text \<open>
  \<open>type App struct\<close>. The methods have the receiver \<open>a *App\<close>; the model takes the
  coordinator that \<open>a\<close> points to and returns the changed one. The \<open>logger\<close> field is
  a pointer: it is nil in a coordinator built as \<open>&App{}\<close>, and a logger call
  through it is then a nil dereference.
\<close>

record App =
  GracePeriod :: Duration
  ShutdownTimeout :: Duration
  shutdownHandlers :: "ShutdownHandler list"
  logger :: "logger option"

text \<open>
  \<open>NewDefaultApp\<close> assigns the package variable \<open>defaultApp\<close>: after the call the
  variable is \<open>Some (NewDefaultApp ctx)\<close>. The context argument is not used.
\<close>

definition NewDefaultApp :: "Context \<Rightarrow> App" where
  "NewDefaultApp ctx =
     \<lparr> GracePeriod = DefaultGracePeriod,
       ShutdownTimeout = DefaultShutdownTimeout,
       shutdownHandlers = [],
       logger = Some JSONStdoutLogger \<rparr>"

subsection \<open>Shutdown and registration\<close>

definition handler_failed :: "string \<Rightarrow> event" where
  "handler_failed e =
     Logged LevelError ''error executing shutdown handler''
       [(''module'', ''app/app''), (''source'', ''app.Shutdown''), (''error'', e)]"

text \<open>
  The \<open>for ... range a.shutdownHandlers\<close> loop. A handler that panics or never returns
  ends the loop there. \<open>a.logger.Error\<close> on a nil logger is a nil dereference.
\<close>

fun Shutdown_loop ::
  "logger option \<Rightarrow> Context \<Rightarrow> ShutdownHandler list \<Rightarrow> event list \<times> error outcome" where
  "Shutdown_loop lg ctx [] = ([], Returns None)"
| "Shutdown_loop lg ctx (h # hs) =
     (case h ctx of
        Panics v \<Rightarrow> ([Invoked h ctx], Panics v)
      | NeverReturns \<Rightarrow> ([Invoked h ctx], NeverReturns)
      | Returns None \<Rightarrow>
          (let (evs, out) = Shutdown_loop lg ctx hs in (Invoked h ctx # evs, out))
      | Returns (Some e) \<Rightarrow>
          (case lg of
             None \<Rightarrow> ([Invoked h ctx], Panics nil_dereference)
           | Some l \<Rightarrow>
               (let (evs, out) = Shutdown_loop lg ctx hs
                in (Invoked h ctx # handler_failed e # evs, out))))"

definition Shutdown :: "App option \<Rightarrow> App \<Rightarrow> Context \<Rightarrow> event list \<times> error outcome" where
  "Shutdown defaultApp a ctx =
     (if defaultApp = None then ([], Panics not_initialized)
      else Shutdown_loop (logger a) ctx (shutdownHandlers a))"

definition RegisterShutdownHandler :: "App option \<Rightarrow> App \<Rightarrow> ShutdownHandler \<Rightarrow> App outcome" where
  "RegisterShutdownHandler defaultApp a handler =
     (if defaultApp = None then Panics not_initialized
      else Returns (a\<lparr>shutdownHandlers := shutdownHandlers a @ [handler]\<rparr>))"

subsection \<open>RunAndWait\<close>

text \<open>
  The goroutine that runs the main loop: its events, and the value it offers on the
  unbuffered channel \<open>errs\<close> (\<open>None\<close> when it never reaches a send). The deferred
  \<open>recover()\<close> ends a panic of the goroutine, whether of the logger call or of
  \<open>mainLoop()\<close>, without a send.
\<close>

definition mainLoopGoroutine :: "App \<Rightarrow> MainLoopFunc option \<Rightarrow> event list \<times> error option" where
  "mainLoopGoroutine a mainLoop =
     (case logger a of
        None \<Rightarrow> ([], None)
      | Some l \<Rightarrow>
          ([Logged LevelInfo ''Application main loop starting now!'' []],
           (case mainLoop of
              None \<Rightarrow> Some (Some ''main loop is nil'')
            | Some f \<Rightarrow>
                (case f of
                   Returns err \<Rightarrow> Some err
                 | Panics v \<Rightarrow> None
                 | NeverReturns \<Rightarrow> None))))"

text \<open>
  The environment of one run: whether SIGINT or SIGTERM is delivered while
  \<open>RunAndWait\<close> waits, and the case that \<open>select\<close> takes when both the done channel
  and a send on \<open>errs\<close> are there.
\<close>

datatype select_case = SignalCase | ReceiveCase

record env =
  signalled :: bool
  chosen :: select_case

datatype selected = SignalDone | Received error

text \<open>\<open>select\<close> blocks for ever when no signal is delivered and nothing is sent.\<close>

definition select_ready :: "env \<Rightarrow> error option \<Rightarrow> selected option" where
  "select_ready e offer =
     (case offer of
        None \<Rightarrow> (if signalled e then Some SignalDone else None)
      | Some err \<Rightarrow>
          (if signalled e \<and> chosen e = SignalCase then Some SignalDone
           else Some (Received err)))"

text \<open>
  One call of \<open>RunAndWait\<close>: the events of the calling thread, the events of the
  main-loop goroutine (it runs concurrently, so their place among the thread's events
  is not fixed), and how the call ends.
\<close>

record run =
  trace :: "event list"
  loop_trace :: "event list"
  result :: "unit outcome"

text \<open>
  The part of \<open>RunAndWait\<close> from a call of \<open>a.Shutdown(ctx)\<close> on: \<open>pre\<close> is what the
  thread did before. A panic of \<open>Shutdown\<close> leaves \<open>RunAndWait\<close> through the deferred
  \<open>cancel()\<close>.
\<close>

definition after_Shutdown :: "event list \<Rightarrow> event list \<Rightarrow> event list \<times> error outcome \<Rightarrow> run" where
  "after_Shutdown pre gevs sd =
     (case snd sd of
        Returns None \<Rightarrow>
          \<lparr> trace = pre @ fst sd @ [Logged LevelInfo ''App gracefully terminated.'' [], CancelNotify],
            loop_trace = gevs, result = Returns () \<rparr>
      | Returns (Some e) \<Rightarrow>
          \<lparr> trace = pre @ fst sd
              @ [Logged LevelError ''App terminated with error'' [(''error'', e)], CancelNotify],
            loop_trace = gevs, result = Returns () \<rparr>
      | Panics v \<Rightarrow>
          \<lparr> trace = pre @ fst sd @ [CancelNotify], loop_trace = gevs, result = Panics v \<rparr>
      | NeverReturns \<Rightarrow>
          \<lparr> trace = pre @ fst sd, loop_trace = gevs, result = NeverReturns \<rparr>)"

definition started :: "event list" where
  "started = [Logged LevelInfo ''[app] Starting run and wait.'' [], NotifyContext]"

definition signal_path :: "App \<Rightarrow> event list" where
  "signal_path a =
     [Logged LevelInfo ''Graceful shutdown signal received! Awaiting for grace period to end.'' [],
      Slept (GracePeriod a),
      Logged LevelInfo ''Grace period is over, initiating shutdown procedures...'' [],
      CallShutdown Background]"

definition main_loop_path :: "string \<Rightarrow> event list" where
  "main_loop_path e =
     [Logged LevelError ''Main Loop finished by itself, initiating shutdown procedures...''
        [(''error'', e)],
      CallShutdown Background]"

text \<open>
  \<open>RunAndWait\<close>. In the receive case the argument \<open>err.Error()\<close> of the logger call is
  evaluated first; on a nil \<open>err\<close> that is a nil dereference, in the calling thread,
  which no \<open>recover\<close> covers.
\<close>

definition RunAndWait :: "App option \<Rightarrow> App \<Rightarrow> MainLoopFunc option \<Rightarrow> env \<Rightarrow> run" where
  "RunAndWait defaultApp a mainLoop e =
     (if defaultApp = None then
        \<lparr> trace = [], loop_trace = [], result = Panics not_initialized \<rparr>
      else
        (case logger a of
           None \<Rightarrow> \<lparr> trace = [], loop_trace = [], result = Panics nil_dereference \<rparr>
         | Some l \<Rightarrow>
             (let (gevs, offer) = mainLoopGoroutine a mainLoop in
              (case select_ready e offer of
                 None \<Rightarrow> \<lparr> trace = started, loop_trace = gevs, result = NeverReturns \<rparr>
               | Some SignalDone \<Rightarrow>
                   after_Shutdown (started @ signal_path a) gevs (Shutdown defaultApp a Background)
               | Some (Received None) \<Rightarrow>
                   \<lparr> trace = started @ [CancelNotify], loop_trace = gevs,
                     result = Panics nil_dereference \<rparr>
               | Some (Received (Some err)) \<Rightarrow>
                   after_Shutdown (started @ main_loop_path err) gevs
                     (Shutdown defaultApp a Background)))))"

subsection \<open>Reading a trace\<close>

fun invocations :: "event list \<Rightarrow> (ShutdownHandler \<times> Context) list" where
  "invocations [] = []"
| "invocations (Invoked h ctx # evs) = (h, ctx) # invocations evs"
| "invocations (ev # evs) = invocations evs"

fun shutdown_calls :: "event list \<Rightarrow> Context list" where
  "shutdown_calls [] = []"
| "shutdown_calls (CallShutdown ctx # evs) = ctx # shutdown_calls evs"
| "shutdown_calls (ev # evs) = shutdown_calls evs"

fun logged :: "event list \<Rightarrow> (level \<times> string \<times> (string \<times> string) list) list" where
  "logged [] = []"
| "logged (Logged lv msg attrs # evs) = (lv, msg, attrs) # logged evs"
| "logged (ev # evs) = logged evs"

text \<open>The errors that the handlers return on \<open>ctx\<close>, in list order.\<close>

fun returned_errors :: "Context \<Rightarrow> ShutdownHandler list \<Rightarrow> string list" where
  "returned_errors ctx [] = []"
| "returned_errors ctx (h # hs) =
     (case h ctx of
        Returns (Some e) \<Rightarrow> e # returned_errors ctx hs
      | _ \<Rightarrow> returned_errors ctx hs)"

definition returns :: "ShutdownHandler \<Rightarrow> Context \<Rightarrow> bool" where
  "returns h ctx = (case h ctx of Returns err \<Rightarrow> True | _ \<Rightarrow> False)"

subsection \<open>Example coordinators\<close>

text \<open>Handlers that return an error, return nil, and panic, whatever the context.\<close>

definition failing_handler :: ShutdownHandler where
  "failing_handler ctx = Returns (Some ''close db: connection reset'')"

definition ok_handler :: ShutdownHandler where
  "ok_handler ctx = Returns None"

definition panicking_handler :: ShutdownHandler where
  "panicking_handler ctx = Panics ''close cache: index out of range''"

text \<open>
  The default coordinator with a grace period of zero and two handlers, of which the
  first fails; the same with a panicking handler between the two.
\<close>

definition two_handler_app :: App where
  "two_handler_app =
     (NewDefaultApp Background)
       \<lparr> GracePeriod := 0, shutdownHandlers := [failing_handler, ok_handler] \<rparr>"

definition panicking_app :: App where
  "panicking_app =
     (NewDefaultApp Background)
       \<lparr> shutdownHandlers := [failing_handler, panicking_handler, ok_handler] \<rparr>"

text \<open>No signal is delivered; a signal is delivered and \<open>select\<close> takes it.\<close>

definition no_signal :: env where
  "no_signal = \<lparr> signalled = False, chosen = ReceiveCase \<rparr>"

definition signal_wins :: env where
  "signal_wins = \<lparr> signalled = True, chosen = SignalCase \<rparr>"

section \<open>Properties\<close>

subsection \<open>Traces\<close>

lemma shutdown_calls_append: "shutdown_calls (xs @ ys) = shutdown_calls xs @ shutdown_calls ys"
  by (induction xs rule: shutdown_calls.induct) simp_all

subsection \<open>The handler loop\<close>

lemma Shutdown_loop_shutdown_calls: "shutdown_calls (fst (Shutdown_loop lg ctx hs)) = []"
  by (induction hs) (auto simp: handler_failed_def split: outcome.splits option.splits prod.splits)

lemma Shutdown_loop_returns:
  "\<forall>h\<in>set hs. returns h ctx \<Longrightarrow> lg \<noteq> None \<Longrightarrow> snd (Shutdown_loop lg ctx hs) = Returns None"
  by (induction hs) (auto simp: returns_def split: outcome.splits option.splits prod.splits)

lemma Shutdown_loop_invocations:
  "\<forall>h\<in>set hs. returns h ctx \<Longrightarrow> lg \<noteq> None \<Longrightarrow>
   invocations (fst (Shutdown_loop lg ctx hs)) = map (\<lambda>h. (h, ctx)) hs"
  by (induction hs)
    (auto simp: returns_def handler_failed_def split: outcome.splits option.splits prod.splits)

lemma Shutdown_loop_logged:
  "\<forall>h\<in>set hs. returns h ctx \<Longrightarrow> lg \<noteq> None \<Longrightarrow>
   logged (fst (Shutdown_loop lg ctx hs)) =
     map (\<lambda>e. (LevelError, ''error executing shutdown handler'',
                [(''module'', ''app/app''), (''source'', ''app.Shutdown''), (''error'', e)]))
       (returned_errors ctx hs)"
  by (induction hs)
    (auto simp: returns_def handler_failed_def split: outcome.splits option.splits prod.splits)

lemma Shutdown_loop_contexts:
  "map snd (invocations (fst (Shutdown_loop lg ctx hs))) =
     replicate (length (invocations (fst (Shutdown_loop lg ctx hs)))) ctx"
  by (induction hs) (auto simp: handler_failed_def split: outcome.splits option.splits prod.splits)

lemma Shutdown_loop_panic:
  "\<forall>g\<in>set pre. returns g ctx \<Longrightarrow> lg \<noteq> None \<Longrightarrow> h ctx = Panics v \<Longrightarrow>
   snd (Shutdown_loop lg ctx (pre @ h # post)) = Panics v \<and>
   invocations (fst (Shutdown_loop lg ctx (pre @ h # post))) = map (\<lambda>g. (g, ctx)) (pre @ [h])"
  by (induction pre)
    (auto simp: returns_def handler_failed_def split: outcome.splits option.splits prod.splits)

lemma Shutdown_shutdown_calls: "shutdown_calls (fst (Shutdown d a ctx)) = []"
  by (simp add: Shutdown_def Shutdown_loop_shutdown_calls)

lemma Shutdown_returns:
  "d \<noteq> None \<Longrightarrow> logger a \<noteq> None \<Longrightarrow> \<forall>h\<in>set (shutdownHandlers a). returns h ctx \<Longrightarrow>
   snd (Shutdown d a ctx) = Returns None"
  by (auto simp: Shutdown_def Shutdown_loop_returns)

subsection \<open>Shutdown\<close>

text \<open>
  C2. On a coordinator with its logger, once the default coordinator exists, and with
  handlers that each return (nil or an error) on the context: \<open>Shutdown\<close> calls every
  registered handler, once, in list order, whichever of them return an error; and
  \<open>RegisterShutdownHandler\<close> puts a handler after all those registered before, so list
  order is registration order.
\<close>

theorem Shutdown_invokes_all_in_registration_order:
  assumes "defaultApp \<noteq> None" and "logger a \<noteq> None"
    and "\<forall>h\<in>set (shutdownHandlers a). returns h ctx"
  shows "invocations (fst (Shutdown defaultApp a ctx)) = map (\<lambda>h. (h, ctx)) (shutdownHandlers a)
       \<and> RegisterShutdownHandler defaultApp a handler =
           Returns (a\<lparr>shutdownHandlers := shutdownHandlers a @ [handler]\<rparr>)"
  using assms by (auto simp: Shutdown_def RegisterShutdownHandler_def Shutdown_loop_invocations)

theorem Shutdown_invokes_all_in_registration_order_witness:
  "Some (NewDefaultApp Background) \<noteq> None \<and> logger two_handler_app \<noteq> None
   \<and> shutdownHandlers two_handler_app = [failing_handler, ok_handler]
   \<and> returns failing_handler Background \<and> returns ok_handler Background
   \<and> returned_errors Background (shutdownHandlers two_handler_app) = [''close db: connection reset'']
   \<and> invocations (fst (Shutdown (Some (NewDefaultApp Background)) two_handler_app Background)) =
       [(failing_handler, Background), (ok_handler, Background)]
   \<and> RegisterShutdownHandler (Some (NewDefaultApp Background)) two_handler_app panicking_handler =
       Returns (two_handler_app\<lparr>shutdownHandlers := [failing_handler, ok_handler, panicking_handler]\<rparr>)"
proof -
  have d: "Some (NewDefaultApp Background) \<noteq> None" by simp
  have l: "logger two_handler_app \<noteq> None"
    by (simp add: two_handler_app_def NewDefaultApp_def)
  have r: "\<forall>h\<in>set (shutdownHandlers two_handler_app). returns h Background"
    by (simp add: two_handler_app_def returns_def failing_handler_def ok_handler_def)
  have e: "returned_errors Background (shutdownHandlers two_handler_app) = [''close db: connection reset'']"
    by (simp add: two_handler_app_def failing_handler_def ok_handler_def)
  have s: "shutdownHandlers two_handler_app = [failing_handler, ok_handler]"
    by (simp add: two_handler_app_def)
  show ?thesis
    using d l r e
      Shutdown_invokes_all_in_registration_order [OF d l r, of panicking_handler]
    by (simp add: s)
qed

text \<open>
  C4. Under the same conditions \<open>Shutdown\<close> returns nil whatever the handlers return,
  and the logger receives, for each handler that returned an error and in that order,
  one error record with the attributes module, source and the error text.
\<close>

theorem Shutdown_returns_nil_and_logs_each_failure:
  assumes "defaultApp \<noteq> None" and "logger a \<noteq> None"
    and "\<forall>h\<in>set (shutdownHandlers a). returns h ctx"
  shows "snd (Shutdown defaultApp a ctx) = Returns None
       \<and> logged (fst (Shutdown defaultApp a ctx)) =
           map (\<lambda>e. (LevelError, ''error executing shutdown handler'',
                      [(''module'', ''app/app''), (''source'', ''app.Shutdown''), (''error'', e)]))
             (returned_errors ctx (shutdownHandlers a))"
  using assms by (auto simp: Shutdown_def Shutdown_loop_returns Shutdown_loop_logged)

theorem Shutdown_returns_nil_and_logs_each_failure_witness:
  "Some (NewDefaultApp Background) \<noteq> None \<and> logger two_handler_app \<noteq> None
   \<and> shutdownHandlers two_handler_app = [failing_handler, ok_handler]
   \<and> returns failing_handler (WithCancel Background) \<and> returns ok_handler (WithCancel Background)
   \<and> snd (Shutdown (Some (NewDefaultApp Background)) two_handler_app (WithCancel Background)) =
       Returns None
   \<and> logged (fst (Shutdown (Some (NewDefaultApp Background)) two_handler_app (WithCancel Background))) =
       [(LevelError, ''error executing shutdown handler'',
         [(''module'', ''app/app''), (''source'', ''app.Shutdown''),
          (''error'', ''close db: connection reset'')])]"
proof -
  have d: "Some (NewDefaultApp Background) \<noteq> None" by simp
  have l: "logger two_handler_app \<noteq> None"
    by (simp add: two_handler_app_def NewDefaultApp_def)
  have r: "\<forall>h\<in>set (shutdownHandlers two_handler_app). returns h (WithCancel Background)"
    by (simp add: two_handler_app_def returns_def failing_handler_def ok_handler_def)
  have s: "shutdownHandlers two_handler_app = [failing_handler, ok_handler]"
    by (simp add: two_handler_app_def)
  show ?thesis
    using d l r Shutdown_returns_nil_and_logs_each_failure [OF d l r]
    by (simp add: s failing_handler_def ok_handler_def)
qed

text \<open>
  C8. \<open>Shutdown\<close> and \<open>RunAndWait\<close> do the same on two coordinators that agree on
  every field but \<open>ShutdownTimeout\<close>, and every handler that \<open>Shutdown\<close> calls
  receives the context that \<open>Shutdown\<close> was given, unchanged.
\<close>

theorem ShutdownTimeout_is_not_used:
  assumes "GracePeriod b = GracePeriod a" and "shutdownHandlers b = shutdownHandlers a"
    and "logger b = logger a"
  shows "Shutdown defaultApp b ctx = Shutdown defaultApp a ctx
       \<and> map snd (invocations (fst (Shutdown defaultApp a ctx))) =
           replicate (length (invocations (fst (Shutdown defaultApp a ctx)))) ctx
       \<and> RunAndWait defaultApp b mainLoop e = RunAndWait defaultApp a mainLoop e"
proof -
  have sd: "Shutdown defaultApp b c = Shutdown defaultApp a c" for c
    using assms by (simp add: Shutdown_def)
  have gr: "mainLoopGoroutine b mainLoop = mainLoopGoroutine a mainLoop"
    using assms by (simp add: mainLoopGoroutine_def)
  have sp: "signal_path b = signal_path a"
    using assms by (simp add: signal_path_def)
  have cs: "map snd (invocations (fst (Shutdown defaultApp a ctx))) =
      replicate (length (invocations (fst (Shutdown defaultApp a ctx)))) ctx"
    by (simp add: Shutdown_def Shutdown_loop_contexts)
  have rw: "RunAndWait defaultApp b mainLoop e = RunAndWait defaultApp a mainLoop e"
    unfolding RunAndWait_def sd gr sp assms(3) by (rule refl)
  show ?thesis using sd cs rw by simp
qed

theorem ShutdownTimeout_is_not_used_witness:
  "GracePeriod (two_handler_app\<lparr>ShutdownTimeout := 1\<rparr>) = GracePeriod two_handler_app
   \<and> shutdownHandlers (two_handler_app\<lparr>ShutdownTimeout := 1\<rparr>) = shutdownHandlers two_handler_app
   \<and> logger (two_handler_app\<lparr>ShutdownTimeout := 1\<rparr>) = logger two_handler_app
   \<and> ShutdownTimeout (two_handler_app\<lparr>ShutdownTimeout := 1\<rparr>) \<noteq> ShutdownTimeout two_handler_app
   \<and> Shutdown (Some (NewDefaultApp Background)) (two_handler_app\<lparr>ShutdownTimeout := 1\<rparr>)
         (WithTimeout Background 7)
       = Shutdown (Some (NewDefaultApp Background)) two_handler_app (WithTimeout Background 7)
   \<and> map snd (invocations (fst (Shutdown (Some (NewDefaultApp Background)) two_handler_app
         (WithTimeout Background 7)))) = [WithTimeout Background 7, WithTimeout Background 7]"
proof -
  have t: "ShutdownTimeout (two_handler_app\<lparr>ShutdownTimeout := 1\<rparr>) \<noteq> ShutdownTimeout two_handler_app"
    by (simp add: two_handler_app_def NewDefaultApp_def DefaultShutdownTimeout_def Second_def)
  have n: "invocations (fst (Shutdown (Some (NewDefaultApp Background)) two_handler_app
      (WithTimeout Background 7))) =
      [(failing_handler, WithTimeout Background 7), (ok_handler, WithTimeout Background 7)]"
    by (simp add: Shutdown_def two_handler_app_def NewDefaultApp_def failing_handler_def
        ok_handler_def handler_failed_def)
  show ?thesis
    using t ShutdownTimeout_is_not_used [of "two_handler_app\<lparr>ShutdownTimeout := 1\<rparr>" two_handler_app
        "Some (NewDefaultApp Background)" "WithTimeout Background 7"]
    by (simp add: n)
qed

text \<open>
  C9. Once the default coordinator exists, \<open>Shutdown\<close> on a coordinator without
  handlers does nothing and returns nil.
\<close>

theorem Shutdown_without_handlers:
  assumes "defaultApp \<noteq> None" and "shutdownHandlers a = []"
  shows "Shutdown defaultApp a ctx = ([], Returns None)"
  using assms by (simp add: Shutdown_def)

theorem Shutdown_without_handlers_witness:
  "Some (NewDefaultApp Background) \<noteq> None \<and> shutdownHandlers (NewDefaultApp Background) = []
   \<and> Shutdown (Some (NewDefaultApp Background)) (NewDefaultApp Background) Background =
       ([], Returns None)"
proof -
  have d: "Some (NewDefaultApp Background) \<noteq> None" by simp
  have s: "shutdownHandlers (NewDefaultApp Background) = []" by (simp add: NewDefaultApp_def)
  show ?thesis using d s Shutdown_without_handlers [OF d s] by simp
qed

text \<open>
  C10. When a handler panics, after handlers that returned, \<open>Shutdown\<close> ends in that
  panic, and the handlers called are those up to and including the panicking one:
  none of the later ones is called.
\<close>

theorem handler_panic_skips_later_handlers:
  assumes "defaultApp \<noteq> None" and "logger a \<noteq> None"
    and "shutdownHandlers a = pre @ h # post"
    and "\<forall>g\<in>set pre. returns g ctx" and "h ctx = Panics v"
  shows "snd (Shutdown defaultApp a ctx) = Panics v
       \<and> invocations (fst (Shutdown defaultApp a ctx)) = map (\<lambda>g. (g, ctx)) (pre @ [h])"
  using assms by (auto simp: Shutdown_def Shutdown_loop_panic)

theorem handler_panic_skips_later_handlers_witness:
  "Some (NewDefaultApp Background) \<noteq> None \<and> logger panicking_app \<noteq> None
   \<and> shutdownHandlers panicking_app = [failing_handler] @ panicking_handler # [ok_handler]
   \<and> returns failing_handler Background
   \<and> panicking_handler Background = Panics ''close cache: index out of range''
   \<and> snd (Shutdown (Some (NewDefaultApp Background)) panicking_app Background) =
       Panics ''close cache: index out of range''
   \<and> invocations (fst (Shutdown (Some (NewDefaultApp Background)) panicking_app Background)) =
       [(failing_handler, Background), (panicking_handler, Background)]"
proof -
  have d: "Some (NewDefaultApp Background) \<noteq> None" by simp
  have l: "logger panicking_app \<noteq> None" by (simp add: panicking_app_def NewDefaultApp_def)
  have s: "shutdownHandlers panicking_app = [failing_handler] @ panicking_handler # [ok_handler]"
    by (simp add: panicking_app_def)
  have r: "\<forall>g\<in>set [failing_handler]. returns g Background"
    by (simp add: returns_def failing_handler_def)
  have p: "panicking_handler Background = Panics ''close cache: index out of range''"
    by (simp add: panicking_handler_def)
  show ?thesis
    using d l s r p handler_panic_skips_later_handlers [OF d l s r p] by simp
qed

subsection \<open>RunAndWait\<close>

lemma after_Shutdown_shutdown_calls:
  "shutdown_calls (trace (after_Shutdown pre gevs (Shutdown d a ctx))) = shutdown_calls pre"
  by (simp add: after_Shutdown_def shutdown_calls_append Shutdown_shutdown_calls
      split: outcome.splits option.splits)

lemma after_Shutdown_returned:
  "snd sd = Returns None \<Longrightarrow>
   after_Shutdown pre gevs sd =
     \<lparr> trace = pre @ fst sd @ [Logged LevelInfo ''App gracefully terminated.'' [], CancelNotify],
       loop_trace = gevs, result = Returns () \<rparr>"
  by (simp add: after_Shutdown_def)

lemma after_Shutdown_prefix:
  "\<exists>rest. trace (after_Shutdown pre gevs sd) = pre @ fst sd @ rest
     \<and> invocations rest = [] \<and> shutdown_calls rest = []"
  by (simp add: after_Shutdown_def split: outcome.splits option.splits)

lemma goroutine_nil_main_loop:
  "logger a \<noteq> None \<Longrightarrow>
   mainLoopGoroutine a None =
     ([Logged LevelInfo ''Application main loop starting now!'' []], Some (Some ''main loop is nil''))"
  by (auto simp: mainLoopGoroutine_def)

text \<open>
  C1. On the default coordinator, with a main loop that returns nil at once and no
  signal, \<open>RunAndWait\<close> panics with a nil dereference when it evaluates \<open>err.Error()\<close>
  for the log record of the receive case: \<open>Shutdown\<close> is not called and no success is
  logged.
\<close>

theorem RunAndWait_main_loop_returns_nil:
  "RunAndWait (Some (NewDefaultApp Background)) (NewDefaultApp Background)
     (Some (Returns None)) no_signal =
     \<lparr> trace = [Logged LevelInfo ''[app] Starting run and wait.'' [], NotifyContext, CancelNotify],
       loop_trace = [Logged LevelInfo ''Application main loop starting now!'' []],
       result = Panics ''runtime error: invalid memory address or nil pointer dereference'' \<rparr>"
  by (simp add: RunAndWait_def NewDefaultApp_def mainLoopGoroutine_def select_ready_def
      no_signal_def started_def nil_dereference_def)

text \<open>
  C3. With the default coordinator set, a logger, and handlers that return: on a nil
  main loop \<open>RunAndWait\<close> returns, whatever the environment does, and calls \<open>Shutdown\<close>
  exactly once; when the receive case is taken (no signal, or \<open>select\<close> takes the
  receive) it logs the error "main loop is nil" and then runs \<open>Shutdown\<close> and logs
  success.
\<close>

theorem RunAndWait_nil_main_loop:
  assumes "defaultApp \<noteq> None" and "logger a \<noteq> None"
    and "\<forall>h\<in>set (shutdownHandlers a). returns h Background"
  shows "result (RunAndWait defaultApp a None e) = Returns ()
       \<and> shutdown_calls (trace (RunAndWait defaultApp a None e)) = [Background]
       \<and> (\<not> signalled e \<or> chosen e = ReceiveCase \<longrightarrow>
            trace (RunAndWait defaultApp a None e) =
              [Logged LevelInfo ''[app] Starting run and wait.'' [], NotifyContext,
               Logged LevelError ''Main Loop finished by itself, initiating shutdown procedures...''
                 [(''error'', ''main loop is nil'')],
               CallShutdown Background]
              @ fst (Shutdown defaultApp a Background)
              @ [Logged LevelInfo ''App gracefully terminated.'' [], CancelNotify])"
proof -
  obtain l where l: "logger a = Some l" using assms(2) by auto
  have d: "(defaultApp = None) = False" using assms(1) by simp
  have sd: "snd (Shutdown defaultApp a Background) = Returns None"
    using assms by (rule Shutdown_returns)
  have g: "mainLoopGoroutine a None =
      ([Logged LevelInfo ''Application main loop starting now!'' []], Some (Some ''main loop is nil''))"
    using assms(2) by (rule goroutine_nil_main_loop)
  show ?thesis
  proof (cases "signalled e \<and> chosen e = SignalCase")
    case True
    then have sel: "select_ready e (Some (Some ''main loop is nil'')) = Some SignalDone"
      by (simp add: select_ready_def)
    have r: "RunAndWait defaultApp a None e =
        after_Shutdown (started @ signal_path a)
          [Logged LevelInfo ''Application main loop starting now!'' []]
          (Shutdown defaultApp a Background)"
      by (simp add: RunAndWait_def d l g sel)
    have c: "shutdown_calls (trace (RunAndWait defaultApp a None e)) = [Background]"
      by (simp add: r after_Shutdown_shutdown_calls started_def signal_path_def)
    have "result (RunAndWait defaultApp a None e) = Returns ()"
      by (simp add: r after_Shutdown_returned [OF sd])
    with True c show ?thesis by simp
  next
    case False
    then have sel: "select_ready e (Some (Some ''main loop is nil'')) =
        Some (Received (Some ''main loop is nil''))"
      by (auto simp: select_ready_def)
    have r: "RunAndWait defaultApp a None e =
        after_Shutdown (started @ main_loop_path ''main loop is nil'')
          [Logged LevelInfo ''Application main loop starting now!'' []]
          (Shutdown defaultApp a Background)"
      by (simp add: RunAndWait_def d l g sel)
    have c: "shutdown_calls (trace (RunAndWait defaultApp a None e)) = [Background]"
      by (simp add: r after_Shutdown_shutdown_calls started_def main_loop_path_def)
    have "RunAndWait defaultApp a None e =
        \<lparr> trace = (started @ main_loop_path ''main loop is nil'')
            @ fst (Shutdown defaultApp a Background)
            @ [Logged LevelInfo ''App gracefully terminated.'' [], CancelNotify],
          loop_trace = [Logged LevelInfo ''Application main loop starting now!'' []],
          result = Returns () \<rparr>"
      unfolding r by (rule after_Shutdown_returned [OF sd])
    with c show ?thesis by (simp add: started_def main_loop_path_def)
  qed
qed

theorem RunAndWait_nil_main_loop_witness:
  "Some (NewDefaultApp Background) \<noteq> None \<and> logger two_handler_app \<noteq> None
   \<and> returns failing_handler Background \<and> returns ok_handler Background
   \<and> result (RunAndWait (Some (NewDefaultApp Background)) two_handler_app None no_signal) = Returns ()
   \<and> shutdown_calls (trace (RunAndWait (Some (NewDefaultApp Background)) two_handler_app None
         no_signal)) = [Background]
   \<and> trace (RunAndWait (Some (NewDefaultApp Background)) two_handler_app None no_signal) =
       [Logged LevelInfo ''[app] Starting run and wait.'' [], NotifyContext,
        Logged LevelError ''Main Loop finished by itself, initiating shutdown procedures...''
          [(''error'', ''main loop is nil'')],
        CallShutdown Background,
        Invoked failing_handler Background,
        Logged LevelError ''error executing shutdown handler''
          [(''module'', ''app/app''), (''source'', ''app.Shutdown''),
           (''error'', ''close db: connection reset'')],
        Invoked ok_handler Background,
        Logged LevelInfo ''App gracefully terminated.'' [], CancelNotify]"
proof -
  have d: "Some (NewDefaultApp Background) \<noteq> None" by simp
  have l: "logger two_handler_app \<noteq> None"
    by (simp add: two_handler_app_def NewDefaultApp_def)
  have r: "\<forall>h\<in>set (shutdownHandlers two_handler_app). returns h Background"
    by (simp add: two_handler_app_def returns_def failing_handler_def ok_handler_def)
  have s: "fst (Shutdown (Some (NewDefaultApp Background)) two_handler_app Background) =
      [Invoked failing_handler Background,
       Logged LevelError ''error executing shutdown handler''
         [(''module'', ''app/app''), (''source'', ''app.Shutdown''),
          (''error'', ''close db: connection reset'')],
       Invoked ok_handler Background]"
    by (simp add: Shutdown_def two_handler_app_def NewDefaultApp_def failing_handler_def
        ok_handler_def handler_failed_def)
  have n: "\<not> signalled no_signal" by (simp add: no_signal_def)
  have rr: "returns failing_handler Background \<and> returns ok_handler Background"
    by (simp add: returns_def failing_handler_def ok_handler_def)
  show ?thesis
    using d l rr n RunAndWait_nil_main_loop [OF d l r, of no_signal]
    by (simp add: s)
qed

text \<open>
  C5. With the default coordinator set and a logger: whenever \<open>select\<close> takes the
  signal case, whatever the main loop and the handlers do, the thread logs that the
  signal was received, sleeps for \<open>GracePeriod\<close>, logs the end of the grace period
  and only then calls \<open>Shutdown\<close>, whose events follow; nothing after them calls a
  handler or \<open>Shutdown\<close> again.
\<close>

theorem signal_path_sleeps_grace_period_before_Shutdown:
  assumes "defaultApp \<noteq> None" and "logger a \<noteq> None"
    and "select_ready e (snd (mainLoopGoroutine a mainLoop)) = Some SignalDone"
  shows "\<exists>rest. trace (RunAndWait defaultApp a mainLoop e) =
           [Logged LevelInfo ''[app] Starting run and wait.'' [], NotifyContext,
            Logged LevelInfo
              ''Graceful shutdown signal received! Awaiting for grace period to end.'' [],
            Slept (GracePeriod a),
            Logged LevelInfo ''Grace period is over, initiating shutdown procedures...'' [],
            CallShutdown Background]
           @ fst (Shutdown defaultApp a Background) @ rest
         \<and> invocations rest = [] \<and> shutdown_calls rest = []"
proof -
  obtain l where l: "logger a = Some l" using assms(2) by auto
  have d: "(defaultApp = None) = False" using assms(1) by simp
  obtain gevs offer where g: "mainLoopGoroutine a mainLoop = (gevs, offer)"
    by (cases "mainLoopGoroutine a mainLoop")
  have sel: "select_ready e offer = Some SignalDone" using assms(3) by (simp add: g)
  have r: "RunAndWait defaultApp a mainLoop e =
      after_Shutdown (started @ signal_path a) gevs (Shutdown defaultApp a Background)"
    by (simp add: RunAndWait_def d l g sel)
  obtain rest where
    "trace (after_Shutdown (started @ signal_path a) gevs (Shutdown defaultApp a Background)) =
       (started @ signal_path a) @ fst (Shutdown defaultApp a Background) @ rest"
    and "invocations rest = []" and "shutdown_calls rest = []"
    using after_Shutdown_prefix by blast
  then show ?thesis
    by (simp add: r started_def signal_path_def)
qed

theorem signal_path_sleeps_grace_period_before_Shutdown_witness:
  "Some (NewDefaultApp Background) \<noteq> None \<and> logger panicking_app \<noteq> None
   \<and> select_ready signal_wins (snd (mainLoopGoroutine panicking_app (Some (Returns None)))) =
       Some SignalDone
   \<and> GracePeriod panicking_app = 3000000000
   \<and> (\<exists>rest. trace (RunAndWait (Some (NewDefaultApp Background)) panicking_app (Some (Returns None))
          signal_wins) =
         [Logged LevelInfo ''[app] Starting run and wait.'' [], NotifyContext,
          Logged LevelInfo
            ''Graceful shutdown signal received! Awaiting for grace period to end.'' [],
          Slept 3000000000,
          Logged LevelInfo ''Grace period is over, initiating shutdown procedures...'' [],
          CallShutdown Background,
          Invoked failing_handler Background,
          Logged LevelError ''error executing shutdown handler''
            [(''module'', ''app/app''), (''source'', ''app.Shutdown''),
             (''error'', ''close db: connection reset'')],
          Invoked panicking_handler Background] @ rest
        \<and> invocations rest = [] \<and> shutdown_calls rest = [])"
proof -
  have d: "Some (NewDefaultApp Background) \<noteq> None" by simp
  have l: "logger panicking_app \<noteq> None"
    by (simp add: panicking_app_def NewDefaultApp_def)
  have w: "select_ready signal_wins (snd (mainLoopGoroutine panicking_app (Some (Returns None)))) =
      Some SignalDone"
    by (simp add: select_ready_def signal_wins_def mainLoopGoroutine_def panicking_app_def
        NewDefaultApp_def)
  have p: "GracePeriod panicking_app = 3000000000"
    by (simp add: panicking_app_def NewDefaultApp_def DefaultGracePeriod_def Second_def)
  have s: "fst (Shutdown (Some (NewDefaultApp Background)) panicking_app Background) =
      [Invoked failing_handler Background,
       Logged LevelError ''error executing shutdown handler''
         [(''module'', ''app/app''), (''source'', ''app.Shutdown''),
          (''error'', ''close db: connection reset'')],
       Invoked panicking_handler Background]"
    by (simp add: Shutdown_def panicking_app_def NewDefaultApp_def failing_handler_def
        panicking_handler_def handler_failed_def)
  show ?thesis
    using d l w p signal_path_sleeps_grace_period_before_Shutdown [OF d l w]
    by (simp add: s)
qed

text \<open>
  C6. A panic of the main loop is recovered in its goroutine, which then sends
  nothing: \<open>RunAndWait\<close> does exactly what it does on a main loop that never returns.
  Only a signal ends the wait; with handlers that return, \<open>RunAndWait\<close> returns after
  a signal and waits for ever without one, and never panics.
\<close>

theorem main_loop_panic_is_swallowed:
  "snd (mainLoopGoroutine a (Some (Panics v))) = None
   \<and> RunAndWait defaultApp a (Some (Panics v)) e = RunAndWait defaultApp a (Some NeverReturns) e
   \<and> select_ready e (snd (mainLoopGoroutine a (Some (Panics v)))) =
       (if signalled e then Some SignalDone else None)
   \<and> (defaultApp \<noteq> None \<and> logger a \<noteq> None
        \<and> (\<forall>h\<in>set (shutdownHandlers a). returns h Background) \<longrightarrow>
      result (RunAndWait defaultApp a (Some (Panics v)) e) =
        (if signalled e then Returns () else NeverReturns))"
proof -
  have g: "mainLoopGoroutine a (Some (Panics v)) = mainLoopGoroutine a (Some NeverReturns)"
    by (simp add: mainLoopGoroutine_def split: option.splits)
  have n: "snd (mainLoopGoroutine a (Some (Panics v))) = None"
    by (simp add: mainLoopGoroutine_def split: option.splits)
  have eq: "RunAndWait defaultApp a (Some (Panics v)) e =
      RunAndWait defaultApp a (Some NeverReturns) e"
    unfolding RunAndWait_def g by (rule refl)
  have sel: "select_ready e (snd (mainLoopGoroutine a (Some (Panics v)))) =
      (if signalled e then Some SignalDone else None)"
    by (simp add: n select_ready_def)
  have res: "result (RunAndWait defaultApp a (Some (Panics v)) e) =
      (if signalled e then Returns () else NeverReturns)"
    if d: "defaultApp \<noteq> None" and lg: "logger a \<noteq> None"
      and r: "\<forall>h\<in>set (shutdownHandlers a). returns h Background"
  proof -
    obtain l where l: "logger a = Some l" using lg by auto
    have d': "(defaultApp = None) = False" using d by simp
    have sd: "snd (Shutdown defaultApp a Background) = Returns None"
      using d lg r by (rule Shutdown_returns)
    have gl: "mainLoopGoroutine a (Some (Panics v)) =
        ([Logged LevelInfo ''Application main loop starting now!'' []], None)"
      by (simp add: mainLoopGoroutine_def l)
    show ?thesis
      by (simp add: RunAndWait_def d' l gl select_ready_def after_Shutdown_returned [OF sd])
  qed
  show ?thesis using n eq sel res by simp
qed

theorem main_loop_panic_is_swallowed_witness:
  "snd (mainLoopGoroutine two_handler_app (Some (Panics ''boom''))) = None
   \<and> RunAndWait (Some (NewDefaultApp Background)) two_handler_app (Some (Panics ''boom'')) no_signal
       = RunAndWait (Some (NewDefaultApp Background)) two_handler_app (Some NeverReturns) no_signal
   \<and> select_ready no_signal (snd (mainLoopGoroutine two_handler_app (Some (Panics ''boom'')))) = None
   \<and> select_ready signal_wins (snd (mainLoopGoroutine two_handler_app (Some (Panics ''boom'')))) =
       Some SignalDone
   \<and> Some (NewDefaultApp Background) \<noteq> None \<and> logger two_handler_app \<noteq> None
   \<and> returns failing_handler Background \<and> returns ok_handler Background
   \<and> result (RunAndWait (Some (NewDefaultApp Background)) two_handler_app (Some (Panics ''boom''))
         no_signal) = NeverReturns
   \<and> result (RunAndWait (Some (NewDefaultApp Background)) two_handler_app (Some (Panics ''boom''))
         signal_wins) = Returns ()"
proof -
  have l: "logger two_handler_app \<noteq> None"
    by (simp add: two_handler_app_def NewDefaultApp_def)
  have s: "shutdownHandlers two_handler_app = [failing_handler, ok_handler]"
    by (simp add: two_handler_app_def)
  have r: "returns failing_handler Background \<and> returns ok_handler Background"
    by (simp add: returns_def failing_handler_def ok_handler_def)
  have n: "\<not> signalled no_signal" and w: "signalled signal_wins"
    by (simp_all add: no_signal_def signal_wins_def)
  note quiet =
    main_loop_panic_is_swallowed [of two_handler_app "''boom''" "Some (NewDefaultApp Background)"
      no_signal]
  note sig =
    main_loop_panic_is_swallowed [of two_handler_app "''boom''" "Some (NewDefaultApp Background)"
      signal_wins]
  have 1: "snd (mainLoopGoroutine two_handler_app (Some (Panics ''boom''))) = None"
    using quiet by (rule conjunct1)
  have 2: "RunAndWait (Some (NewDefaultApp Background)) two_handler_app (Some (Panics ''boom''))
      no_signal =
      RunAndWait (Some (NewDefaultApp Background)) two_handler_app (Some NeverReturns) no_signal"
    using quiet by (rule conjunct1 [OF conjunct2])
  have 3: "select_ready no_signal (snd (mainLoopGoroutine two_handler_app (Some (Panics ''boom'')))) =
      None"
    using conjunct1 [OF conjunct2 [OF conjunct2 [OF quiet]]] n by simp
  have 4: "select_ready signal_wins (snd (mainLoopGoroutine two_handler_app (Some (Panics ''boom''))))
      = Some SignalDone"
    using conjunct1 [OF conjunct2 [OF conjunct2 [OF sig]]] w by simp
  have 5: "result (RunAndWait (Some (NewDefaultApp Background)) two_handler_app
      (Some (Panics ''boom'')) no_signal) = NeverReturns"
    using conjunct2 [OF conjunct2 [OF conjunct2 [OF quiet]]] l r n by (simp add: s)
  have 6: "result (RunAndWait (Some (NewDefaultApp Background)) two_handler_app
      (Some (Panics ''boom'')) signal_wins) = Returns ()"
    using conjunct2 [OF conjunct2 [OF conjunct2 [OF sig]]] l r w by (simp add: s)
  show ?thesis
    using l r 1 2 3 4 5 6 by blast
qed

text \<open>
  C7. While the package variable \<open>defaultApp\<close> is nil, \<open>RunAndWait\<close>, \<open>Shutdown\<close> and
  \<open>RegisterShutdownHandler\<close> panic with "default app not initialized" before they do
  anything else, on every coordinator value they are called on.
\<close>

theorem operations_panic_without_default_app:
  "RunAndWait None a mainLoop e =
     \<lparr> trace = [], loop_trace = [], result = Panics ''default app not initialized'' \<rparr>
   \<and> Shutdown None a ctx = ([], Panics ''default app not initialized'')
   \<and> RegisterShutdownHandler None a handler = Panics ''default app not initialized''"
  by (simp add: RunAndWait_def Shutdown_def RegisterShutdownHandler_def not_initialized_def)

theorem operations_panic_without_default_app_witness:
  "RunAndWait None two_handler_app (Some (Returns None)) no_signal =
     \<lparr> trace = [], loop_trace = [], result = Panics ''default app not initialized'' \<rparr>
   \<and> Shutdown None two_handler_app Background = ([], Panics ''default app not initialized'')
   \<and> RegisterShutdownHandler None two_handler_app ok_handler =
       Panics ''default app not initialized''"
  using operations_panic_without_default_app
    [of two_handler_app "Some (Returns None)" no_signal Background ok_handler]
  by simp

end
